theory Spec2Isabelle
  imports Complex_Main
begin

section \<open>Data model\<close>

text \<open>
  The annotation engine of \<^verbatim>\<open>auto_annotate.py\<close>. Python's \<^verbatim>\<open>float\<close> is modelled by
  \<^typ>\<open>real\<close>: arithmetic is exact, a decimal literal such as \<^verbatim>\<open>0.3333\<close> denotes the
  rational \<open>3333/10000\<close>, and \<^verbatim>\<open>x ** 0.5\<close> is \<^term>\<open>sqrt x\<close>. Rounding, overflow,
  infinities and NaN are outside the model. Python's \<^verbatim>\<open>int\<close> is \<^typ>\<open>int\<close>.

  The items come from \<^verbatim>\<open>json.load\<close>, so a field of an item is any JSON value.
\<close>

datatype pyval =
    PNone
  | PBool bool
  | PInt int
  | PFloat real
  | PStr string
  | PList "pyval list"
  | PDict "(string \<times> pyval) list"

datatype error =
    TypeError
  | ValueError
  | ZeroDivisionError
  | FileNotFoundError

type_synonym box = "real \<times> real \<times> real \<times> real"
type_synonym point = "real \<times> real"
type_synonym item = "string \<rightharpoonup> pyval"

section \<open>Geometry normalizer\<close>

text \<open>
  \<^verbatim>\<open>rectify_bbox(x, y, w, h)\<close>. The guard \<^verbatim>\<open>w is not None and h is not None\<close> is
  kept: width and height are optional, and nothing is changed when one is absent.
\<close>

definition rectify_bbox ::
  "real \<Rightarrow> real \<Rightarrow> real option \<Rightarrow> real option \<Rightarrow> real \<times> real \<times> real option \<times> real option" where
  "rectify_bbox x y w h =
     (case (w, h) of
        (Some wv, Some hv) \<Rightarrow>
          (let (x1, w1) = (if wv < 0 then (x + wv, - wv) else (x, wv));
               (y1, h1) = (if hv < 0 then (y + hv, - hv) else (y, hv))
           in (x1, y1, Some w1, Some h1))
      | _ \<Rightarrow> (x, y, w, h))"

subsection \<open>Python values\<close>

text \<open>Truth value of a JSON value, as \<^verbatim>\<open>not v\<close> tests it.\<close>

fun truthy :: "pyval \<Rightarrow> bool" where
  "truthy PNone = False"
| "truthy (PBool b) = b"
| "truthy (PInt i) = (i \<noteq> 0)"
| "truthy (PFloat r) = (r \<noteq> 0)"
| "truthy (PStr s) = (s \<noteq> [])"
| "truthy (PList xs) = (xs \<noteq> [])"
| "truthy (PDict kvs) = (kvs \<noteq> [])"

text \<open>\<^verbatim>\<open>len(v)\<close>: defined on strings, lists and dicts, a \<^verbatim>\<open>TypeError\<close> otherwise.\<close>

fun py_len :: "pyval \<Rightarrow> error + nat" where
  "py_len (PStr s) = Inr (length s)"
| "py_len (PList xs) = Inr (length xs)"
| "py_len (PDict kvs) = Inr (length (remdups (map fst kvs)))"
| "py_len _ = Inl TypeError"

text \<open>
  The slice \<^verbatim>\<open>v[:n]\<close>, as the list of its elements: the first \<open>n\<close> elements of a
  list, the first \<open>n\<close> characters of a string (each a one-character string). A dict
  cannot be sliced (the interpreter raises there; the model calls it \<open>TypeError\<close>).
\<close>

fun py_take :: "nat \<Rightarrow> pyval \<Rightarrow> error + pyval list" where
  "py_take n (PList xs) = Inr (take n xs)"
| "py_take n (PStr s) = Inr (map (\<lambda>c. PStr [c]) (take n s))"
| "py_take n _ = Inl TypeError"

text \<open>
  \<^verbatim>\<open>float(v)\<close>. Python's parser of numeric strings is a built-in, not code of this
  program: it is the parameter \<open>sf\<close>, which gives the number a string denotes, or
  \<open>None\<close> where \<^verbatim>\<open>float\<close> raises \<^verbatim>\<open>ValueError\<close>.
\<close>

fun py_float :: "(string \<Rightarrow> real option) \<Rightarrow> pyval \<Rightarrow> error + real" where
  "py_float sf PNone = Inl TypeError"
| "py_float sf (PBool b) = Inr (if b then 1 else 0)"
| "py_float sf (PInt i) = Inr (real_of_int i)"
| "py_float sf (PFloat r) = Inr r"
| "py_float sf (PStr s) = (case sf s of None \<Rightarrow> Inl ValueError | Some r \<Rightarrow> Inr r)"
| "py_float sf (PList xs) = Inl TypeError"
| "py_float sf (PDict kvs) = Inl TypeError"

text \<open>The comprehension \<^verbatim>\<open>[float(v) for v in vs]\<close>: the first failure is raised.\<close>

fun floats :: "(string \<Rightarrow> real option) \<Rightarrow> pyval list \<Rightarrow> error + real list" where
  "floats sf [] = Inr []"
| "floats sf (v # vs) =
     (case py_float sf v of
        Inl e \<Rightarrow> Inl e
      | Inr r \<Rightarrow> (case floats sf vs of Inl e \<Rightarrow> Inl e | Inr rs \<Rightarrow> Inr (r # rs)))"

subsection \<open>Boxes and points\<close>

definition default_box :: box where
  "default_box = (25 / 100, 25 / 100, 5 / 10, 5 / 10)"

definition default_point :: point where
  "default_point = (5 / 10, 5 / 10)"

definition clamp01 :: "real \<Rightarrow> real" where
  "clamp01 v = max 0 (min 1 v)"

text \<open>
  \<^verbatim>\<open>normalize_bbox(bbox, is_normalized, width, height)\<close>. Dividing by a zero
  dimension raises \<^verbatim>\<open>ZeroDivisionError\<close>; the unpacking of the four floats cannot
  fail, the slice of a value of length at least 4 having exactly four elements.
\<close>

definition normalize_bbox ::
  "(string \<Rightarrow> real option) \<Rightarrow> pyval \<Rightarrow> bool \<Rightarrow> int \<Rightarrow> int \<Rightarrow> error + box" where
  "normalize_bbox sf bbox is_normalized width height =
     (if \<not> truthy bbox then Inr default_box
      else case py_len bbox of
        Inl e \<Rightarrow> Inl e
      | Inr n \<Rightarrow>
          if n < 4 then Inr default_box
          else case py_take 4 bbox of
            Inl e \<Rightarrow> Inl e
          | Inr vs \<Rightarrow>
              (case floats sf vs of
                 Inl e \<Rightarrow> Inl e
               | Inr [x, y, w, h] \<Rightarrow>
                   (case rectify_bbox x y (Some w) (Some h) of
                      (x1, y1, Some w1, Some h1) \<Rightarrow>
                        if is_normalized then
                          Inr (clamp01 x1, clamp01 y1, clamp01 w1, clamp01 h1)
                        else if width = 0 \<or> height = 0 then Inl ZeroDivisionError
                        else Inr (clamp01 (x1 / real_of_int width),
                                  clamp01 (y1 / real_of_int height),
                                  clamp01 (w1 / real_of_int width),
                                  clamp01 (h1 / real_of_int height))
                    | _ \<Rightarrow> Inl TypeError)
               | Inr _ \<Rightarrow> Inl ValueError))"

text \<open>
  \<^verbatim>\<open>normalize_point(pt, is_normalized, width, height)\<close>. Only the two conversions
  are inside the \<^verbatim>\<open>try\<close>; the length test, the slice and the divisions are not.
\<close>

definition normalize_point ::
  "(string \<Rightarrow> real option) \<Rightarrow> pyval \<Rightarrow> bool \<Rightarrow> int \<Rightarrow> int \<Rightarrow> error + point" where
  "normalize_point sf pt is_normalized width height =
     (if \<not> truthy pt then Inr default_point
      else case py_len pt of
        Inl e \<Rightarrow> Inl e
      | Inr n \<Rightarrow>
          if n < 2 then Inr default_point
          else case py_take 2 pt of
            Inl e \<Rightarrow> Inl e
          | Inr [px0, py0] \<Rightarrow>
              (case py_float sf px0 of
                 Inl e \<Rightarrow> Inr default_point
               | Inr px \<Rightarrow>
                   (case py_float sf py0 of
                      Inl e \<Rightarrow> Inr default_point
                    | Inr py \<Rightarrow>
                        if is_normalized then Inr (px, py)
                        else if 0 \<le> px \<and> width = 0 then Inl ZeroDivisionError
                        else if 0 \<le> py \<and> height = 0 then Inl ZeroDivisionError
                        else Inr (if 0 \<le> px then px / real_of_int width else - (5 / 100),
                                  if 0 \<le> py then py / real_of_int height else - (5 / 100))))
          | Inr _ \<Rightarrow> Inl ValueError)"

section \<open>Gaze classifier\<close>

record analysis =
  target_type :: string
  farther_closer :: string
  scale :: string
  object_detection :: string
  focal_point :: string

subsection \<open>Fixed-point formatting\<close>

text \<open>The decimal digit of a number below ten.\<close>

definition digit_char :: "nat \<Rightarrow> char" where
  "digit_char n = ''0123456789'' ! n"

fun string_of_nat :: "nat \<Rightarrow> string" where
  "string_of_nat n =
     (if n < 10 then [digit_char n] else string_of_nat (n div 10) @ [digit_char (n mod 10)])"

declare string_of_nat.simps [simp del]

definition round_half_even :: "real \<Rightarrow> int" where
  "round_half_even v =
     (let f = \<lfloor>v\<rfloor>; d = v - real_of_int f
      in if d < 1 / 2 then f else if 1 / 2 < d then f + 1 else if even f then f else f + 1)"

text \<open>
  The format \<^verbatim>\<open>f"{v:.2f}"\<close>: the sign of a negative number, the integer digits, a
  point and two fractional digits, the value rounded to hundredths (ties to even).
\<close>

definition format_2f :: "real \<Rightarrow> string" where
  "format_2f v =
     (let n = nat (round_half_even (\<bar>v\<bar> * 100))
      in (if v < 0 then ''-'' else []) @ string_of_nat (n div 100) @ ''.'' @
         [digit_char (n mod 100 div 10), digit_char (n mod 10)])"

subsection \<open>The five labels\<close>

text \<open>Target type (the block under \<^verbatim>\<open># Target type\<close>).\<close>

definition target_type_of ::
  "real \<Rightarrow> real \<Rightarrow> real \<Rightarrow> real \<Rightarrow> real \<Rightarrow> real \<Rightarrow> int \<Rightarrow> int \<Rightarrow> string" where
  "target_type_of gazeX gazeY faceX faceY faceW faceH width height =
     (if gazeX < 0 \<or> gazeX > real_of_int width \<or> gazeY < 0 \<or> gazeY > real_of_int height
      then ''out-of-frame target''
      else
        let faceCenterX = faceX + faceW / 2;
            faceCenterY = faceY + faceH / 2;
            gazeDistance = sqrt ((gazeX - faceCenterX)\<^sup>2 + (gazeY - faceCenterY)\<^sup>2)
        in if gazeDistance < min faceW faceH * (3 / 10) then ''Eye-contact''
           else ''in-frame target'')"

text \<open>Farther, closer or equal, from the distance to the face centre and the face size.\<close>

definition gaze_position_of :: "real \<Rightarrow> real \<Rightarrow> string" where
  "gaze_position_of gazeDistanceFromFace faceSize =
     (if gazeDistanceFromFace > faceSize * 2 then ''farther''
      else if gazeDistanceFromFace < faceSize * (5 / 10) then ''closer''
      else ''equal'')"

text \<open>
  Scale estimate in metres. The conditional tests the constant
  \<^verbatim>\<open>estimatedFaceWidthMeters\<close>; the division by \<^verbatim>\<open>pixelsPerMeter\<close> raises
  \<^verbatim>\<open>ZeroDivisionError\<close> when that is zero.
\<close>

definition scale_of :: "real \<Rightarrow> real \<Rightarrow> error + string" where
  "scale_of faceW gazeDistanceFromFace =
     (let estimatedFaceWidthMeters = (2 / 10 :: real);
          pixelsPerMeter =
            (if estimatedFaceWidthMeters > 0 then faceW / estimatedFaceWidthMeters else 1)
      in if pixelsPerMeter = 0 then Inl ZeroDivisionError
         else Inr (format_2f (gazeDistanceFromFace / pixelsPerMeter)))"

text \<open>Object detection heuristic: the first rule that matches.\<close>

definition object_detection_of :: "string \<Rightarrow> real \<Rightarrow> real \<Rightarrow> string" where
  "object_detection_of targetType gx gy =
     (if targetType = ''Eye-contact'' then ''Camera/Viewer''
      else if gy < 3 / 10 then ''Object above (ceiling, sky, etc.)''
      else if gy > 7 / 10 then ''Object below (floor, ground, etc.)''
      else if gx < 3 / 10 then ''Object on left side''
      else if gx > 7 / 10 then ''Object on right side''
      else ''Central object'')"

text \<open>Focal point (region) classification.\<close>

definition focal_point_of :: "real \<Rightarrow> real \<Rightarrow> string" where
  "focal_point_of gx gy =
     (if gx < 0 \<or> gx > 1 \<or> gy < 0 \<or> gy > 1 then
        let horiz = (if gx < 0 then ''left'' else if gx > 1 then ''right'' else ''center'');
            vert = (if gy < 0 then ''top'' else if gy > 1 then ''bottom'' else ''middle'')
        in if horiz = ''center'' \<and> vert = ''middle'' then ''out-of-frame''
           else if vert = ''middle'' then ''out-of-frame '' @ horiz
           else if horiz = ''center'' then ''out-of-frame '' @ vert
           else ''out-of-frame '' @ vert @ ''-'' @ horiz
      else
        let horiz = (if gx < 3333 / 10000 then ''left''
                     else if gx > 6667 / 10000 then ''right'' else ''center'');
            vert = (if gy < 3333 / 10000 then ''top''
                    else if gy > 6667 / 10000 then ''bottom'' else ''middle'')
        in if horiz = ''center'' \<and> vert = ''middle'' then ''center''
           else if vert = ''middle'' then horiz
           else if horiz = ''center'' then vert
           else vert @ ''-'' @ horiz)"

text \<open>
  \<^verbatim>\<open>analyze_gaze(bbox, gaze, width, height)\<close>. A negative product
  \<^verbatim>\<open>faceW * faceH\<close> has a complex square root, which the comparison that follows
  rejects with \<^verbatim>\<open>TypeError\<close>; that comparison comes before the division.
\<close>

definition analyze_gaze :: "box \<Rightarrow> point \<Rightarrow> int \<Rightarrow> int \<Rightarrow> error + analysis" where
  "analyze_gaze bbox gaze width height =
     (case bbox of (bx, by, bw, bh) \<Rightarrow>
      case gaze of (gx, gy) \<Rightarrow>
        let gazeX = gx * real_of_int width;
            gazeY = gy * real_of_int height;
            faceX = bx * real_of_int width;
            faceY = by * real_of_int height;
            faceW = bw * real_of_int width;
            faceH = bh * real_of_int height;
            targetType = target_type_of gazeX gazeY faceX faceY faceW faceH width height;
            gazeDistanceFromFace =
              sqrt ((gazeX - (faceX + faceW / 2))\<^sup>2 + (gazeY - (faceY + faceH / 2))\<^sup>2)
        in if faceW * faceH < 0 then Inl TypeError
           else
             let faceSize = sqrt (faceW * faceH);
                 gazePosition = gaze_position_of gazeDistanceFromFace faceSize
             in case scale_of faceW gazeDistanceFromFace of
                  Inl e \<Rightarrow> Inl e
                | Inr scale_str \<Rightarrow>
                    Inr \<lparr>target_type = targetType,
                         farther_closer = gazePosition,
                         scale = scale_str,
                         object_detection = object_detection_of targetType gx gy,
                         focal_point = focal_point_of gx gy\<rparr>)"

section \<open>Annotation assembler\<close>

text \<open>
  An annotation is the dict \<^verbatim>\<open>make_ann\<close> builds: the five labels with the box and
  the gaze. The key \<^verbatim>\<open>gaze_number\<close> is absent until the numbering loop sets it.
\<close>

record annotation = analysis +
  bbox :: box
  gaze :: point
  gaze_number :: "int option"

definition make_ann :: "box \<Rightarrow> int \<Rightarrow> int \<Rightarrow> point \<Rightarrow> error + annotation" where
  "make_ann b width height g =
     (case analyze_gaze b g width height of
        Inl e \<Rightarrow> Inl e
      | Inr a \<Rightarrow>
          Inr \<lparr>target_type = target_type a,
               farther_closer = farther_closer a,
               scale = scale a,
               object_detection = object_detection a,
               focal_point = focal_point a,
               bbox = b,
               gaze = g,
               gaze_number = None\<rparr>)"

text \<open>\<^verbatim>\<open>item.get(key)\<close>: \<^verbatim>\<open>None\<close> for an absent key.\<close>

definition item_get :: "item \<Rightarrow> string \<Rightarrow> pyval" where
  "item_get item key = (case item key of None \<Rightarrow> PNone | Some v \<Rightarrow> v)"

definition startswith :: "string \<Rightarrow> string \<Rightarrow> bool" where
  "startswith s pre = (take (length pre) s = pre)"

text \<open>The path prefix decides whether the item's coordinates are already normalized.\<close>

definition is_gf_of :: "item \<Rightarrow> bool" where
  "is_gf_of item =
     (case (case item ''path'' of None \<Rightarrow> PStr [] | Some v \<Rightarrow> v) of
        PStr p \<Rightarrow> startswith p ''train/'' \<or> startswith p ''test2/''
      | _ \<Rightarrow> False)"

text \<open>A normalized point as the Python list of its two floats.\<close>

definition point_val :: "point \<Rightarrow> pyval" where
  "point_val q = PList [PFloat (fst q), PFloat (snd q)]"

text \<open>The loop over the explicit gazes: normalize each and append its annotation.\<close>

fun explicit_anns ::
  "(string \<Rightarrow> real option) \<Rightarrow> box \<Rightarrow> bool \<Rightarrow> int \<Rightarrow> int \<Rightarrow> pyval list \<Rightarrow> error + annotation list" where
  "explicit_anns sf b is_gf width height [] = Inr []"
| "explicit_anns sf b is_gf width height (g # gs) =
     (case normalize_point sf g is_gf width height of
        Inl e \<Rightarrow> Inl e
      | Inr gp \<Rightarrow>
          (case make_ann b width height gp of
             Inl e \<Rightarrow> Inl e
           | Inr a \<Rightarrow>
               (case explicit_anns sf b is_gf width height gs of
                  Inl e \<Rightarrow> Inl e
                | Inr as \<Rightarrow> Inr (a # as))))"

text \<open>\<^verbatim>\<open>for i, ann in enumerate(anns, start=1): ann['gaze_number'] = i\<close>.\<close>

definition number_anns :: "annotation list \<Rightarrow> annotation list" where
  "number_anns anns =
     map (\<lambda>(i, ann). ann\<lparr>gaze_number := Some (int i)\<rparr>) (enumerate 1 anns)"

text \<open>The normalized distance between the primary gaze and the eye.\<close>

definition gaze_eye_dist :: "point \<Rightarrow> point \<Rightarrow> real" where
  "gaze_eye_dist g e =
     (let dx = fst g - fst e; dy = snd g - snd e in sqrt (dx * dx + dy * dy))"

text \<open>
  \<^verbatim>\<open>build_annotations(item)\<close>. Reading the image file is the collaborator
  \<open>resolve_image_full_path\<close>, a parameter: it gives the path and the pixel dimensions,
  or fails. The subtractions inside the \<^verbatim>\<open>try\<close> are on floats and cannot raise.
\<close>

definition build_annotations ::
  "(item \<Rightarrow> error + string \<times> int \<times> int) \<Rightarrow> (string \<Rightarrow> real option) \<Rightarrow> item
     \<Rightarrow> error + annotation list" where
  "build_annotations resolve_image_full_path sf item =
     (case resolve_image_full_path item of
        Inl e \<Rightarrow> Inl e
      | Inr (full_path, width, height) \<Rightarrow>
          let is_gf = is_gf_of item
          in case normalize_bbox sf (item_get item ''bbox'') is_gf width height of
               Inl e \<Rightarrow> Inl e
             | Inr b \<Rightarrow>
          case normalize_point sf (item_get item ''eye'') is_gf width height of
               Inl e \<Rightarrow> Inl e
             | Inr eye \<Rightarrow>
          case normalize_point sf
                 (if truthy (item_get item ''gaze'') then item_get item ''gaze''
                  else point_val eye) is_gf width height of
               Inl e \<Rightarrow> Inl e
             | Inr g \<Rightarrow>
          case make_ann b width height g of
               Inl e \<Rightarrow> Inl e
             | Inr primary \<Rightarrow>
          case (if gaze_eye_dist g eye > 5 / 100
                then (case make_ann b width height eye of
                        Inl e \<Rightarrow> Inl e | Inr a \<Rightarrow> Inr [a])
                else Inr []) of
               Inl e \<Rightarrow> Inl e
             | Inr secondary \<Rightarrow>
          case (case item_get item ''gazes'' of
                  PList gazes \<Rightarrow> explicit_anns sf b is_gf width height gazes
                | _ \<Rightarrow> Inr []) of
               Inl e \<Rightarrow> Inl e
             | Inr extra \<Rightarrow> Inr (number_anns (primary # secondary @ extra)))"

subsection \<open>Two items\<close>

text \<open>
  An item of the normalized namespace (its path starts with \<^verbatim>\<open>train/\<close>) with a box,
  an eye, a gaze and one explicit gaze, on an image of 100 by 100 pixels.
\<close>

definition gf_item :: item where
  "gf_item =
     [''path'' \<mapsto> PStr ''train/00000000/00000318.jpg'',
      ''bbox'' \<mapsto> PList [PFloat (3 / 10), PFloat (3 / 10), PFloat (2 / 10), PFloat (2 / 10)],
      ''eye'' \<mapsto> PList [PFloat (7 / 10), PFloat (8 / 10)],
      ''gaze'' \<mapsto> PList [PFloat (4 / 10), PFloat (4 / 10)],
      ''gazes'' \<mapsto> PList [PList [PFloat (1 / 10), PFloat (2 / 10)]]]"

definition gf_resolve :: "item \<Rightarrow> error + string \<times> int \<times> int" where
  "gf_resolve item = Inr (''merged_images/gazefollow/train/00000000/00000318.jpg'', 100, 100)"

text \<open>
  An item of the pixel namespace with a box and an eye in pixels and no gaze, on an
  image of 640 by 480 pixels.
\<close>

definition vat_item :: item where
  "vat_item =
     [''path'' \<mapsto> PStr ''frames/img1.jpg'',
      ''bbox'' \<mapsto> PList [PInt 100, PInt 100, PInt 50, PInt 50],
      ''eye'' \<mapsto> PList [PInt 320, PInt 240]]"

definition vat_resolve :: "item \<Rightarrow> error + string \<times> int \<times> int" where
  "vat_resolve item = Inr (''merged_images/vat/img1.jpg'', 640, 480)"

section \<open>Covered points\<close>


section \<open>Rectification\<close>




text \<open>
  C10. \<open>rectify_bbox\<close> is idempotent on boxes with numeric components: applied to its
  own output it returns that output unchanged, the first application having made
  width and height non-negative.
\<close>

theorem rectify_bbox_idempotent:
  "(case rectify_bbox x y (Some w) (Some h) of
      (x', y', w', h') \<Rightarrow>
        rectify_bbox x' y' w' h' = (x', y', w', h') \<and>
        (\<exists>wv hv. w' = Some wv \<and> h' = Some hv \<and> 0 \<le> wv \<and> 0 \<le> hv))"
  by (simp add: rectify_bbox_def Let_def)

section \<open>Properties of the gaze classifier\<close>

lemma scale_of_Inr:
  "scale_of faceW d = Inr s \<longleftrightarrow> faceW \<noteq> 0 \<and> s = format_2f (d / (faceW / (2 / 10)))"
  by (auto simp add: scale_of_def Let_def)

lemma scale_of_zero: "scale_of 0 d = Inl ZeroDivisionError"
  by (simp add: scale_of_def Let_def)

lemma analyze_gaze_Inr:
  assumes "analyze_gaze (bx, by, bw, bh) (gx, gy) width height = Inr r"
  shows "target_type r =
           target_type_of (gx * real_of_int width) (gy * real_of_int height)
             (bx * real_of_int width) (by * real_of_int height)
             (bw * real_of_int width) (bh * real_of_int height) width height"
    and "focal_point r = focal_point_of gx gy"
    and "bw * real_of_int width \<noteq> 0"
  using assms
  by (auto simp add: analyze_gaze_def Let_def scale_of_Inr split: if_splits sum.splits)

lemma analyze_gaze_succeeds:
  assumes "0 \<le> bw * real_of_int width * (bh * real_of_int height)" "bw * real_of_int width \<noteq> 0"
  shows "\<exists>r. analyze_gaze (bx, by, bw, bh) (gx, gy) width height = Inr r"
  using assms
  by (auto simp add: analyze_gaze_def Let_def scale_of_def split: sum.splits)

text \<open>
  C2. The claim is that a face width of zero pixels makes the classifier divide by
  \<open>1.0\<close> and never raise. The code does not: for every box whose width times the
  image width is zero, and every gaze point, \<open>analyze_gaze\<close> raises
  \<^verbatim>\<open>ZeroDivisionError\<close> and returns no labels.
\<close>

theorem analyze_gaze_zero_face_width:
  assumes "bw * real_of_int width = 0"
  shows "analyze_gaze (bx, by, bw, bh) g width height = Inl ZeroDivisionError"
  using assms
  by (cases g) (auto simp add: analyze_gaze_def Let_def scale_of_zero)

theorem analyze_gaze_zero_face_width_witness:
  "(0::real) * real_of_int 100 = 0 \<and>
   analyze_gaze (3 / 10, 3 / 10, 0, 2 / 10) (1 / 2, 1 / 2) 100 100 = Inl ZeroDivisionError"
  using analyze_gaze_zero_face_width [of 0 100 "3 / 10" "3 / 10" "2 / 10" "(1 / 2, 1 / 2)" 100]
  by simp

text \<open>
  C4, as amended. For a gaze point inside \<open>[0,1]\<close> on both axes, the focal point of a
  returned analysis follows a 3x3 split whose thresholds are the decimals \<open>0.3333\<close>
  and \<open>0.6667\<close>: left when \<open>gx < 0.3333\<close>, right when \<open>gx > 0.6667\<close>, top when
  \<open>gy < 0.3333\<close>, bottom when \<open>gy > 0.6667\<close>, the vertical word first, and
  \<open>center\<close> when both are central.
\<close>

theorem focal_point_in_frame:
  assumes "0 \<le> gx" "gx \<le> 1" "0 \<le> gy" "gy \<le> 1"
    and "analyze_gaze b (gx, gy) width height = Inr r"
  shows "focal_point r =
     (if gy < 3333 / 10000 then
        (if gx < 3333 / 10000 then ''top-left''
         else if gx > 6667 / 10000 then ''top-right'' else ''top'')
      else if gy > 6667 / 10000 then
        (if gx < 3333 / 10000 then ''bottom-left''
         else if gx > 6667 / 10000 then ''bottom-right'' else ''bottom'')
      else
        (if gx < 3333 / 10000 then ''left''
         else if gx > 6667 / 10000 then ''right'' else ''center''))"
proof -
  obtain bx "by" bw bh where b: "b = (bx, by, bw, bh)" by (cases b)
  from assms(5) have "focal_point r = focal_point_of gx gy"
    unfolding b by (rule analyze_gaze_Inr)
  with assms(1-4) show ?thesis
    by (simp add: focal_point_of_def Let_def)
qed


theorem focal_point_in_frame_witness:
  "(0::real) \<le> 1 / 5 \<and> (1 / 5 :: real) \<le> 1 \<and> (0::real) \<le> 4 / 5 \<and> (4 / 5 :: real) \<le> 1 \<and>
   map_sum id focal_point (analyze_gaze (3 / 10, 3 / 10, 2 / 10, 2 / 10) (1 / 5, 4 / 5) 100 100)
     = Inr ''bottom-left''"
proof -
  obtain r where r: "analyze_gaze (3 / 10, 3 / 10, 2 / 10, 2 / 10) (1 / 5, 4 / 5) 100 100 = Inr r"
    using analyze_gaze_succeeds [of "2 / 10" 100 "2 / 10" 100 "3 / 10" "3 / 10" "1 / 5" "4 / 5"]
    by auto
  have "focal_point r = ''bottom-left''"
    using focal_point_in_frame [of "1 / 5" "4 / 5", OF _ _ _ _ r] by simp
  with r show ?thesis by simp
qed

text \<open>
  C4 as stated fails: \<open>gx = 0.33332\<close> is below \<open>1/3\<close>, so the claim asks for
  \<open>left\<close>, and the code answers \<open>center\<close>.
\<close>

theorem focal_point_thirds_counterexample:
  "(0::real) \<le> 33332 / 100000 \<and> (33332 / 100000 :: real) \<le> 1 \<and>
   (0::real) \<le> 1 / 2 \<and> (1 / 2 :: real) \<le> 1 \<and>
   (33332 / 100000 :: real) < 1 / 3 \<and>
   map_sum id focal_point
     (analyze_gaze (3 / 10, 3 / 10, 2 / 10, 2 / 10) (33332 / 100000, 1 / 2) 100 100)
     = Inr ''center'' \<and>
   ''center'' \<noteq> ''left''"
proof -
  obtain r where
    r: "analyze_gaze (3 / 10, 3 / 10, 2 / 10, 2 / 10) (33332 / 100000, 1 / 2) 100 100 = Inr r"
    using analyze_gaze_succeeds
      [of "2 / 10" 100 "2 / 10" 100 "3 / 10" "3 / 10" "33332 / 100000" "1 / 2"]
    by auto
  have "focal_point r = focal_point_of (33332 / 100000) (1 / 2)"
    using r by (rule analyze_gaze_Inr)
  then have "focal_point r = ''center''"
    by (simp add: focal_point_of_def Let_def)
  with r show ?thesis by simp
qed



section \<open>Properties of the geometry normalizer\<close>


lemma clamp01_range: "0 \<le> clamp01 v \<and> clamp01 v \<le> 1"
  by (simp add: clamp01_def)

text \<open>
  A missing box and a list of fewer than four components give the default box; a
  missing point, a list of fewer than two components, and a list whose first or second
  component \<^verbatim>\<open>float\<close> rejects give the default point.
\<close>

lemma normalize_bbox_missing_or_short:
  assumes "v = PNone \<or> (\<exists>vs. v = PList vs \<and> length vs < 4)"
  shows "normalize_bbox sf v is_normalized width height = Inr default_box"
  using assms by (auto simp add: normalize_bbox_def)

lemma normalize_point_malformed:
  assumes "pt = PNone \<or> (\<exists>vs. pt = PList vs \<and> length vs < 2) \<or>
           (\<exists>a c rest. pt = PList (a # c # rest) \<and> (isl (py_float sf a) \<or> isl (py_float sf c)))"
  shows "normalize_point sf pt is_normalized width height = Inr default_point"
  using assms by (auto simp add: normalize_point_def isl_def split: sum.splits)

text \<open>
  C1. The claim is that every malformed box, a box with a non-numeric component among
  them, gives the default box without an exception. \<open>normalize_bbox\<close> converts the
  components outside any \<^verbatim>\<open>try\<close>: a box whose first component is \<^verbatim>\<open>None\<close> raises
  \<^verbatim>\<open>TypeError\<close>, and one whose first component is a string that is not a number
  raises \<^verbatim>\<open>ValueError\<close>.
\<close>

theorem normalize_bbox_non_numeric_raises:
  "normalize_bbox sf (PList [PNone, PFloat (1 / 10), PFloat (2 / 10), PFloat (3 / 10)])
     True 100 100 = Inl TypeError \<and>
   normalize_bbox (\<lambda>s. None) (PList [PStr ''abc'', PInt 10, PInt 20, PInt 30])
     False 640 480 = Inl ValueError"
  by (simp add: normalize_bbox_def)




section \<open>Properties of the annotation assembler\<close>

lemma length_number_anns: "length (number_anns anns) = length anns"
  by (simp add: number_anns_def)

lemma nth_number_anns:
  "i < length anns \<Longrightarrow> number_anns anns ! i = (anns ! i)\<lparr>gaze_number := Some (int (Suc i))\<rparr>"
  by (simp add: number_anns_def nth_enumerate_eq)

lemma gaze_number_anns: "map gaze (number_anns anns) = map gaze anns"
  by (rule nth_equalityI) (simp_all add: length_number_anns nth_number_anns)

lemma gaze_number_number_anns:
  "map gaze_number (number_anns anns) = map (\<lambda>i. Some (int i)) [1..<Suc (length anns)]"
proof (rule nth_equalityI)
  show "length (map gaze_number (number_anns anns)) =
        length (map (\<lambda>i. Some (int i)) [1..<Suc (length anns)])"
    by (simp add: length_number_anns del: upt_Suc)
next
  fix i
  assume "i < length (map gaze_number (number_anns anns))"
  then have i: "i < length anns" by (simp add: length_number_anns)
  then have "[1..<Suc (length anns)] ! i = Suc i"
    using nth_upt [of 1 i "Suc (length anns)"] by simp
  moreover from i have "i < length [1..<Suc (length anns)]"
    by (simp del: upt_Suc)
  ultimately have "map (\<lambda>i. Some (int i)) [1..<Suc (length anns)] ! i = Some (int (Suc i))"
    by (simp only: nth_map)
  with i show "map gaze_number (number_anns anns) ! i =
        map (\<lambda>i. Some (int i)) [1..<Suc (length anns)] ! i"
    by (simp add: length_number_anns nth_number_anns del: upt_Suc)
qed

lemma make_ann_Inr:
  "make_ann b width height g = Inr a \<Longrightarrow> gaze a = g \<and> bbox a = b \<and> gaze_number a = None"
  by (auto simp add: make_ann_def split: sum.splits)

lemma make_ann_succeeds:
  assumes "\<exists>r. analyze_gaze b g width height = Inr r"
  shows "\<exists>a. make_ann b width height g = Inr a"
  using assms by (auto simp add: make_ann_def)

lemma explicit_anns_Inr:
  "explicit_anns sf b is_gf width height gs = Inr as \<Longrightarrow>
     list_all2 (\<lambda>raw gp. normalize_point sf raw is_gf width height = Inr gp) gs (map gaze as)"
proof (induction gs arbitrary: as)
  case Nil
  then show ?case by simp
next
  case (Cons g gs)
  then show ?case
    by (auto split: sum.splits dest: make_ann_Inr)
qed

lemma sum_bind_InrE:
  assumes "(case m of Inl e \<Rightarrow> Inl e | Inr v \<Rightarrow> f v) = Inr y"
  obtains v where "m = Inr v" "f v = Inr y"
  using assms by (cases m) simp_all

lemma build_annotations_Inr:
  assumes "build_annotations R sf item = Inr anns"
  obtains full_path width height b eye g primary secondary extra where
    "R item = Inr (full_path, width, height)"
    "normalize_bbox sf (item_get item ''bbox'') (is_gf_of item) width height = Inr b"
    "normalize_point sf (item_get item ''eye'') (is_gf_of item) width height = Inr eye"
    "normalize_point sf
       (if truthy (item_get item ''gaze'') then item_get item ''gaze'' else point_val eye)
       (is_gf_of item) width height = Inr g"
    "make_ann b width height g = Inr primary"
    "(if gaze_eye_dist g eye > 5 / 100
      then (case make_ann b width height eye of Inl e \<Rightarrow> Inl e | Inr a \<Rightarrow> Inr [a])
      else Inr []) = Inr secondary"
    "(case item_get item ''gazes'' of
        PList gazes \<Rightarrow> explicit_anns sf b (is_gf_of item) width height gazes
      | _ \<Rightarrow> Inr []) = Inr extra"
    "anns = number_anns (primary # secondary @ extra)"
proof -
  from assms obtain p where p: "R item = Inr p"
    and rest: "(case p of (full_path, width, height) \<Rightarrow>
          let is_gf = is_gf_of item
          in case normalize_bbox sf (item_get item ''bbox'') is_gf width height of
               Inl e \<Rightarrow> Inl e
             | Inr b \<Rightarrow>
          case normalize_point sf (item_get item ''eye'') is_gf width height of
               Inl e \<Rightarrow> Inl e
             | Inr eye \<Rightarrow>
          case normalize_point sf
                 (if truthy (item_get item ''gaze'') then item_get item ''gaze''
                  else point_val eye) is_gf width height of
               Inl e \<Rightarrow> Inl e
             | Inr g \<Rightarrow>
          case make_ann b width height g of
               Inl e \<Rightarrow> Inl e
             | Inr primary \<Rightarrow>
          case (if gaze_eye_dist g eye > 5 / 100
                then (case make_ann b width height eye of
                        Inl e \<Rightarrow> Inl e | Inr a \<Rightarrow> Inr [a])
                else Inr []) of
               Inl e \<Rightarrow> Inl e
             | Inr secondary \<Rightarrow>
          case (case item_get item ''gazes'' of
                  PList gazes \<Rightarrow> explicit_anns sf b is_gf width height gazes
                | _ \<Rightarrow> Inr []) of
               Inl e \<Rightarrow> Inl e
             | Inr extra \<Rightarrow> Inr (number_anns (primary # secondary @ extra))) = Inr anns"
    unfolding build_annotations_def by (rule sum_bind_InrE)
  obtain full_path width height where p': "p = (full_path, width, height)" by (cases p)
  from rest [unfolded p' prod.case Let_def] show thesis
  proof (elim sum_bind_InrE)
    fix b eye g primary secondary extra
    assume "normalize_bbox sf (item_get item ''bbox'') (is_gf_of item) width height = Inr b"
      "normalize_point sf (item_get item ''eye'') (is_gf_of item) width height = Inr eye"
      "normalize_point sf
       (if truthy (item_get item ''gaze'') then item_get item ''gaze'' else point_val eye)
       (is_gf_of item) width height = Inr g"
      "make_ann b width height g = Inr primary"
      "(if gaze_eye_dist g eye > 5 / 100
        then (case make_ann b width height eye of Inl e \<Rightarrow> Inl e | Inr a \<Rightarrow> Inr [a])
        else Inr []) = Inr secondary"
      "(case item_get item ''gazes'' of
          PList gazes \<Rightarrow> explicit_anns sf b (is_gf_of item) width height gazes
        | _ \<Rightarrow> Inr []) = Inr extra"
      "Inr (number_anns (primary # secondary @ extra)) = (Inr anns :: error + annotation list)"
    with p p' show thesis
      by (intro that [of full_path width height b eye g primary secondary extra]) simp_all
  qed
qed

lemma build_annotations_eq:
  assumes "R item = Inr (full_path, width, height)"
    "normalize_bbox sf (item_get item ''bbox'') (is_gf_of item) width height = Inr b"
    "normalize_point sf (item_get item ''eye'') (is_gf_of item) width height = Inr eye"
    "normalize_point sf
       (if truthy (item_get item ''gaze'') then item_get item ''gaze'' else point_val eye)
       (is_gf_of item) width height = Inr g"
    "make_ann b width height g = Inr primary"
    "(if gaze_eye_dist g eye > 5 / 100
      then (case make_ann b width height eye of Inl e \<Rightarrow> Inl e | Inr a \<Rightarrow> Inr [a])
      else Inr []) = Inr secondary"
    "(case item_get item ''gazes'' of
        PList gazes \<Rightarrow> explicit_anns sf b (is_gf_of item) width height gazes
      | _ \<Rightarrow> Inr []) = Inr extra"
  shows "build_annotations R sf item = Inr (number_anns (primary # secondary @ extra))"
  unfolding build_annotations_def Let_def
  by (simp only: assms sum.case prod.case)

subsection \<open>The two items\<close>

lemma gf_item_fields:
  "is_gf_of gf_item"
  "item_get gf_item ''bbox'' = PList [PFloat (3 / 10), PFloat (3 / 10), PFloat (2 / 10), PFloat (2 / 10)]"
  "item_get gf_item ''eye'' = PList [PFloat (7 / 10), PFloat (8 / 10)]"
  "item_get gf_item ''gaze'' = PList [PFloat (4 / 10), PFloat (4 / 10)]"
  "item_get gf_item ''gazes'' = PList [PList [PFloat (1 / 10), PFloat (2 / 10)]]"
  by (simp_all add: gf_item_def is_gf_of_def item_get_def startswith_def)

lemma vat_item_fields:
  "\<not> is_gf_of vat_item"
  "item_get vat_item ''bbox'' = PList [PInt 100, PInt 100, PInt 50, PInt 50]"
  "item_get vat_item ''eye'' = PList [PInt 320, PInt 240]"
  "item_get vat_item ''gaze'' = PNone"
  "item_get vat_item ''gazes'' = PNone"
  by (simp_all add: vat_item_def is_gf_of_def item_get_def startswith_def)

lemma gf_item_dist: "5 / 100 < gaze_eye_dist (4 / 10, 4 / 10) (7 / 10, 8 / 10)"
  unfolding gaze_eye_dist_def Let_def
  by (rule real_less_rsqrt) (simp add: power2_eq_square)

lemma vat_item_dist: "5 / 100 < gaze_eye_dist (1 / 1280, 1 / 960) (1 / 2, 1 / 2)"
  unfolding gaze_eye_dist_def Let_def
  by (rule real_less_rsqrt) (simp add: power2_eq_square)

lemma gf_item_builds:
  "\<exists>a1 a2 a3. build_annotations gf_resolve sf gf_item = Inr (number_anns [a1, a2, a3])"
proof -
  let ?b = "(3 / 10, 3 / 10, 2 / 10, 2 / 10) :: box"
  have bb: "normalize_bbox sf (item_get gf_item ''bbox'') (is_gf_of gf_item) 100 100 = Inr ?b"
    by (simp add: gf_item_fields normalize_bbox_def rectify_bbox_def Let_def clamp01_def)
  have eye: "normalize_point sf (item_get gf_item ''eye'') (is_gf_of gf_item) 100 100
               = Inr (7 / 10, 8 / 10)"
    by (simp add: gf_item_fields normalize_point_def)
  have g: "normalize_point sf
             (if truthy (item_get gf_item ''gaze'') then item_get gf_item ''gaze''
              else point_val (7 / 10, 8 / 10)) (is_gf_of gf_item) 100 100 = Inr (4 / 10, 4 / 10)"
    by (simp add: gf_item_fields normalize_point_def)
  have mk: "\<exists>a. make_ann ?b 100 100 (gx, gy) = Inr a" for gx gy
    by (rule make_ann_succeeds, rule analyze_gaze_succeeds) simp_all
  obtain a1 where a1: "make_ann ?b 100 100 (4 / 10, 4 / 10) = Inr a1" using mk by blast
  obtain a2 where a2: "make_ann ?b 100 100 (7 / 10, 8 / 10) = Inr a2" using mk by blast
  obtain a3 where a3: "make_ann ?b 100 100 (1 / 10, 2 / 10) = Inr a3" using mk by blast
  have sec: "(if gaze_eye_dist (4 / 10, 4 / 10) (7 / 10, 8 / 10) > 5 / 100
      then (case make_ann ?b 100 100 (7 / 10, 8 / 10) of Inl e \<Rightarrow> Inl e | Inr a \<Rightarrow> Inr [a])
      else Inr []) = Inr [a2]"
    using gf_item_dist by (simp only: a2 if_True sum.case)
  have ext: "(case item_get gf_item ''gazes'' of
        PList gazes \<Rightarrow> explicit_anns sf ?b (is_gf_of gf_item) 100 100 gazes
      | _ \<Rightarrow> Inr []) = Inr [a3]"
    using a3 by (simp add: gf_item_fields normalize_point_def)
  have "build_annotations gf_resolve sf gf_item = Inr (number_anns (a1 # [a2] @ [a3]))"
    by (rule build_annotations_eq [OF _ bb eye g a1 sec ext]) (simp add: gf_resolve_def)
  then show ?thesis by auto
qed

lemma vat_item_builds:
  "\<exists>a1 a2. build_annotations vat_resolve sf vat_item = Inr (number_anns [a1, a2]) \<and>
     gaze a1 = (1 / 1280, 1 / 960) \<and> gaze a2 = (1 / 2, 1 / 2)"
proof -
  let ?b = "(5 / 32, 5 / 24, 5 / 64, 5 / 48) :: box"
  have bb: "normalize_bbox sf (item_get vat_item ''bbox'') (is_gf_of vat_item) 640 480 = Inr ?b"
    by (simp add: vat_item_fields normalize_bbox_def rectify_bbox_def Let_def clamp01_def)
  have eye: "normalize_point sf (item_get vat_item ''eye'') (is_gf_of vat_item) 640 480
               = Inr (1 / 2, 1 / 2)"
    by (simp add: vat_item_fields normalize_point_def)
  have g: "normalize_point sf
             (if truthy (item_get vat_item ''gaze'') then item_get vat_item ''gaze''
              else point_val (1 / 2, 1 / 2)) (is_gf_of vat_item) 640 480
             = Inr (1 / 1280, 1 / 960)"
    by (simp add: vat_item_fields normalize_point_def point_val_def)
  have mk: "\<exists>a. make_ann ?b 640 480 (gx, gy) = Inr a" for gx gy
    by (rule make_ann_succeeds, rule analyze_gaze_succeeds) simp_all
  obtain a1 where a1: "make_ann ?b 640 480 (1 / 1280, 1 / 960) = Inr a1" using mk by blast
  obtain a2 where a2: "make_ann ?b 640 480 (1 / 2, 1 / 2) = Inr a2" using mk by blast
  have sec: "(if gaze_eye_dist (1 / 1280, 1 / 960) (1 / 2, 1 / 2) > 5 / 100
      then (case make_ann ?b 640 480 (1 / 2, 1 / 2) of Inl e \<Rightarrow> Inl e | Inr a \<Rightarrow> Inr [a])
      else Inr []) = Inr [a2]"
    using vat_item_dist by (simp only: a2 if_True sum.case)
  have ext: "(case item_get vat_item ''gazes'' of
        PList gazes \<Rightarrow> explicit_anns sf ?b (is_gf_of vat_item) 640 480 gazes
      | _ \<Rightarrow> Inr []) = Inr []"
    by (simp add: vat_item_fields)
  have "build_annotations vat_resolve sf vat_item = Inr (number_anns (a1 # [a2] @ []))"
    by (rule build_annotations_eq [OF _ bb eye g a1 sec ext]) (simp add: vat_resolve_def)
  with make_ann_Inr [OF a1] make_ann_Inr [OF a2] show ?thesis by auto
qed

text \<open>
  C3. The claim is that an item without a gaze gets a primary record whose gaze is the
  normalized eye, and no secondary record. For an item of the pixel namespace the code
  normalizes the already normalized eye a second time: the eye \<open>(320, 240)\<close> on a
  640 by 480 image is \<open>(0.5, 0.5)\<close>, the primary gaze is \<open>(0.5/640, 0.5/480)\<close>, and
  a secondary record for the eye is emitted.
\<close>

theorem missing_gaze_renormalizes_eye:
  "map_sum id (map gaze) (build_annotations vat_resolve sf vat_item)
     = Inr [(1 / 1280, 1 / 960), (1 / 2, 1 / 2)]"
proof -
  obtain a1 a2 where "build_annotations vat_resolve sf vat_item = Inr (number_anns [a1, a2])"
    "gaze a1 = (1 / 1280, 1 / 960)" "gaze a2 = (1 / 2, 1 / 2)"
    using vat_item_builds by blast
  then show ?thesis by (simp add: gaze_number_anns)
qed


subsection \<open>The emitted records\<close>

lemma length_explicit_anns:
  "explicit_anns sf b is_gf width height gs = Inr as \<Longrightarrow> length as = length gs"
  using explicit_anns_Inr [of sf b is_gf width height gs as]
  by (auto dest: list_all2_lengthD)

lemma extra_anns_Inr:
  assumes "(case v of PList gazes \<Rightarrow> explicit_anns sf b is_gf width height gazes | _ \<Rightarrow> Inr [])
             = Inr extra"
  shows "list_all2 (\<lambda>raw gp. normalize_point sf raw is_gf width height = Inr gp)
           (case v of PList gazes \<Rightarrow> gazes | _ \<Rightarrow> []) (map gaze extra)"
  using assms by (cases v) (auto dest: explicit_anns_Inr)

lemma secondary_anns_Inr:
  assumes "(if gaze_eye_dist g eye > 5 / 100
            then (case make_ann b width height eye of Inl e \<Rightarrow> Inl e | Inr a \<Rightarrow> Inr [a])
            else Inr []) = Inr secondary"
  shows "map gaze secondary = (if 5 / 100 < gaze_eye_dist g eye then [eye] else [])"
proof (cases "5 / 100 < gaze_eye_dist g eye")
  case True
  with assms have "(case make_ann b width height eye of Inl e \<Rightarrow> Inl e | Inr a \<Rightarrow> Inr [a])
                     = Inr secondary"
    by (simp only: if_True)
  then obtain a where "make_ann b width height eye = Inr a" "Inr [a] = (Inr secondary :: error + annotation list)"
    by (rule sum_bind_InrE)
  with True show ?thesis by (auto dest: make_ann_Inr)
next
  case False
  with assms have "secondary = []" by (simp only: if_False sum.inject)
  with False show ?thesis by (simp only: if_False list.map)
qed

lemma build_annotations_gazes:
  assumes "build_annotations R sf item = Inr anns"
  shows "\<exists>full_path width height eye g gps.
           R item = Inr (full_path, width, height) \<and>
           normalize_point sf (item_get item ''eye'') (is_gf_of item) width height = Inr eye \<and>
           normalize_point sf
             (if truthy (item_get item ''gaze'') then item_get item ''gaze'' else point_val eye)
             (is_gf_of item) width height = Inr g \<and>
           list_all2 (\<lambda>raw gp. normalize_point sf raw (is_gf_of item) width height = Inr gp)
             (case item_get item ''gazes'' of PList gazes \<Rightarrow> gazes | _ \<Rightarrow> []) gps \<and>
           map gaze anns = g # (if 5 / 100 < gaze_eye_dist g eye then [eye] else []) @ gps"
proof -
  from assms obtain full_path width height b eye g primary secondary extra where
    f: "R item = Inr (full_path, width, height)"
      "normalize_point sf (item_get item ''eye'') (is_gf_of item) width height = Inr eye"
      "normalize_point sf
         (if truthy (item_get item ''gaze'') then item_get item ''gaze'' else point_val eye)
         (is_gf_of item) width height = Inr g"
    and p: "make_ann b width height g = Inr primary"
    and s: "(if gaze_eye_dist g eye > 5 / 100
      then (case make_ann b width height eye of Inl e \<Rightarrow> Inl e | Inr a \<Rightarrow> Inr [a])
      else Inr []) = Inr secondary"
    and e: "(case item_get item ''gazes'' of
        PList gazes \<Rightarrow> explicit_anns sf b (is_gf_of item) width height gazes
      | _ \<Rightarrow> Inr []) = Inr extra"
    and a: "anns = number_anns (primary # secondary @ extra)"
    by (rule build_annotations_Inr)
  have "map gaze anns = gaze primary # map gaze secondary @ map gaze extra"
    unfolding a gaze_number_anns by simp
  also have "\<dots> = g # (if 5 / 100 < gaze_eye_dist g eye then [eye] else []) @ map gaze extra"
    using make_ann_Inr [OF p] secondary_anns_Inr [OF s] by (simp only:)
  finally have "map gaze anns =
      g # (if 5 / 100 < gaze_eye_dist g eye then [eye] else []) @ map gaze extra" .
  with f extra_anns_Inr [OF e] show ?thesis
    by - (intro exI conjI, assumption+)
qed


text \<open>
  C7. When \<open>build_annotations\<close> returns, the \<open>gaze_number\<close> fields of the records
  are \<open>1, 2, ..., N\<close> in this order, and the records are, in this order, the one of
  the primary gaze, the one of the eye when the distance exceeds \<open>0.05\<close>, and one for
  each explicit gaze, normalized, in the order of the list.
\<close>

theorem gaze_numbers_contiguous:
  assumes "build_annotations R sf item = Inr anns"
  shows "map gaze_number anns = map (\<lambda>i. Some (int i)) [1..<Suc (length anns)] \<and>
         (\<exists>full_path width height eye g gps.
            R item = Inr (full_path, width, height) \<and>
            normalize_point sf (item_get item ''eye'') (is_gf_of item) width height = Inr eye \<and>
            normalize_point sf
              (if truthy (item_get item ''gaze'') then item_get item ''gaze'' else point_val eye)
              (is_gf_of item) width height = Inr g \<and>
            list_all2 (\<lambda>raw gp. normalize_point sf raw (is_gf_of item) width height = Inr gp)
              (case item_get item ''gazes'' of PList gazes \<Rightarrow> gazes | _ \<Rightarrow> []) gps \<and>
            map gaze anns = g # (if 5 / 100 < gaze_eye_dist g eye then [eye] else []) @ gps)"
proof
  from assms obtain xs where "anns = number_anns xs"
    by (rule build_annotations_Inr)
  then show "map gaze_number anns = map (\<lambda>i. Some (int i)) [1..<Suc (length anns)]"
    by (simp only: gaze_number_number_anns length_number_anns)
next
  from assms show "\<exists>full_path width height eye g gps.
            R item = Inr (full_path, width, height) \<and>
            normalize_point sf (item_get item ''eye'') (is_gf_of item) width height = Inr eye \<and>
            normalize_point sf
              (if truthy (item_get item ''gaze'') then item_get item ''gaze'' else point_val eye)
              (is_gf_of item) width height = Inr g \<and>
            list_all2 (\<lambda>raw gp. normalize_point sf raw (is_gf_of item) width height = Inr gp)
              (case item_get item ''gazes'' of PList gazes \<Rightarrow> gazes | _ \<Rightarrow> []) gps \<and>
            map gaze anns = g # (if 5 / 100 < gaze_eye_dist g eye then [eye] else []) @ gps"
    by (rule build_annotations_gazes)
qed



theorem gaze_numbers_contiguous_witness:
  "map_sum id (map gaze_number) (build_annotations gf_resolve (\<lambda>s. None) gf_item)
     = Inr [Some 1, Some 2, Some 3] \<and>
   map_sum id (map gaze) (build_annotations gf_resolve (\<lambda>s. None) gf_item)
     = Inr [(4 / 10, 4 / 10), (7 / 10, 8 / 10), (1 / 10, 2 / 10)]"
proof -
  let ?sf = "\<lambda>s::string. None :: real option"
  obtain a1 a2 a3 where
    b: "build_annotations gf_resolve ?sf gf_item = Inr (number_anns [a1, a2, a3])"
    using gf_item_builds [of ?sf] by blast
  let ?anns = "number_anns [a1, a2, a3]"
  have len: "length ?anns = 3" by (simp add: length_number_anns)
  from gaze_numbers_contiguous [OF b]
  have num: "map gaze_number ?anns = map (\<lambda>i. Some (int i)) [1..<Suc (length ?anns)]"
    and "\<exists>full_path width height eye g gps.
            gf_resolve gf_item = Inr (full_path, width, height) \<and>
            normalize_point ?sf (item_get gf_item ''eye'') (is_gf_of gf_item) width height = Inr eye \<and>
            normalize_point ?sf
              (if truthy (item_get gf_item ''gaze'') then item_get gf_item ''gaze'' else point_val eye)
              (is_gf_of gf_item) width height = Inr g \<and>
            list_all2 (\<lambda>raw gp. normalize_point ?sf raw (is_gf_of gf_item) width height = Inr gp)
              (case item_get gf_item ''gazes'' of PList gazes \<Rightarrow> gazes | _ \<Rightarrow> []) gps \<and>
            map gaze ?anns = g # (if 5 / 100 < gaze_eye_dist g eye then [eye] else []) @ gps"
    by blast+
  then obtain full_path width height eye g gps where
    e: "normalize_point ?sf (item_get gf_item ''eye'') (is_gf_of gf_item) width height = Inr eye"
    and g: "normalize_point ?sf
             (if truthy (item_get gf_item ''gaze'') then item_get gf_item ''gaze''
              else point_val eye) (is_gf_of gf_item) width height = Inr g"
    and l: "list_all2 (\<lambda>raw gp. normalize_point ?sf raw (is_gf_of gf_item) width height = Inr gp)
              (case item_get gf_item ''gazes'' of PList gazes \<Rightarrow> gazes | _ \<Rightarrow> []) gps"
    and m: "map gaze ?anns = g # (if 5 / 100 < gaze_eye_dist g eye then [eye] else []) @ gps"
    by (elim exE conjE) (rule that, assumption+)
  from e have eye: "eye = (7 / 10, 8 / 10)"
    by (simp add: gf_item_fields normalize_point_def)
  from g have gz: "g = (4 / 10, 4 / 10)"
    by (simp add: gf_item_fields normalize_point_def)
  from l have gps: "gps = [(1 / 10, 2 / 10)]"
    by (auto simp add: gf_item_fields normalize_point_def list_all2_Cons1)
  have d: "5 / 100 < gaze_eye_dist g eye"
    unfolding eye gz by (rule gf_item_dist)
  have "[1..<Suc 3] = [1, 2, 3]" by (simp add: upt_rec)
  with num len have "map gaze_number ?anns = [Some 1, Some 2, Some 3]" by simp
  moreover from m d have "map gaze ?anns = [(4 / 10, 4 / 10), (7 / 10, 8 / 10), (1 / 10, 2 / 10)]"
    by (simp only: eye gz gps if_True append.simps)
  ultimately show ?thesis unfolding b by simp
qed

text \<open>
  Where the coordinates are already normalized, an item without a gaze does get the
  eye as its primary gaze, at distance zero, and no secondary record.
\<close>

lemma normalize_point_point_val:
  "normalize_point sf (point_val q) True width height = Inr q"
  by (simp add: normalize_point_def point_val_def)

lemma missing_gaze_normalized_item:
  assumes "build_annotations R sf item = Inr anns"
    and "\<not> truthy (item_get item ''gaze'')" and "is_gf_of item"
  shows "\<exists>full_path width height eye.
           R item = Inr (full_path, width, height) \<and>
           normalize_point sf (item_get item ''eye'') True width height = Inr eye \<and>
           map gaze anns = eye # drop 1 (map gaze anns) \<and> gaze_eye_dist eye eye = 0 \<and>
           length anns = 1 + length (case item_get item ''gazes'' of PList gazes \<Rightarrow> gazes | _ \<Rightarrow> [])"
proof -
  from build_annotations_gazes [OF assms(1)]
  obtain full_path width height eye g gps where
    r: "R item = Inr (full_path, width, height)"
    and e: "normalize_point sf (item_get item ''eye'') (is_gf_of item) width height = Inr eye"
    and g: "normalize_point sf
             (if truthy (item_get item ''gaze'') then item_get item ''gaze''
              else point_val eye) (is_gf_of item) width height = Inr g"
    and l: "list_all2 (\<lambda>raw gp. normalize_point sf raw (is_gf_of item) width height = Inr gp)
              (case item_get item ''gazes'' of PList gazes \<Rightarrow> gazes | _ \<Rightarrow> []) gps"
    and m: "map gaze anns = g # (if 5 / 100 < gaze_eye_dist g eye then [eye] else []) @ gps"
    by (elim exE conjE) (rule that, assumption+)
  from g assms(2,3) have ge: "g = eye" by (simp add: normalize_point_point_val)
  have z: "gaze_eye_dist eye eye = 0" by (simp add: gaze_eye_dist_def)
  from m have m': "map gaze anns = eye # gps" unfolding ge z by simp
  have "length anns = length (map gaze anns)" by simp
  also have "\<dots> = 1 + length gps" unfolding m' by simp
  finally have n: "length anns = 1 + length (case item_get item ''gazes'' of PList gazes \<Rightarrow> gazes | _ \<Rightarrow> [])"
    using l by (simp add: list_all2_lengthD)
  from m' have h: "map gaze anns = eye # drop 1 (map gaze anns)" by simp
  from e assms(3) have e': "normalize_point sf (item_get item ''eye'') True width height = Inr eye"
    by simp
  from r e' h z n show ?thesis
    by - (intro exI conjI, assumption+)
qed

subsection \<open>When the assembler returns\<close>

text \<open>
  \<open>build_annotations\<close> returns a list of records whenever the image is resolved with
  positive dimensions, the normalized box has a non-zero width, and the eye, the gaze
  and each explicit gaze are absent or lists.
\<close>

lemma normalize_bbox_range:
  assumes "normalize_bbox sf v is_normalized width height = Inr (x, y, w, h)"
  shows "0 \<le> x \<and> x \<le> 1 \<and> 0 \<le> y \<and> y \<le> 1 \<and> 0 \<le> w \<and> w \<le> 1 \<and> 0 \<le> h \<and> h \<le> 1"
  using assms clamp01_range
  by (auto simp add: normalize_bbox_def default_box_def
      split: if_splits sum.splits list.splits prod.splits option.splits)

lemma normalize_point_total:
  assumes "v = PNone \<or> (\<exists>vs. v = PList vs)" "width \<noteq> 0" "height \<noteq> 0"
  shows "\<exists>q. normalize_point sf v is_normalized width height = Inr q"
  using assms(1)
proof
  assume "v = PNone"
  then show ?thesis by (simp add: normalize_point_def)
next
  assume "\<exists>vs. v = PList vs"
  then obtain vs where v: "v = PList vs" ..
  consider "vs = []" | a where "vs = [a]" | a c rest where "vs = a # c # rest"
    by (cases vs; cases "tl vs") auto
  then show ?thesis
    by cases (auto simp add: v normalize_point_def assms(2,3) split: sum.splits)
qed

lemma make_ann_total:
  assumes "0 \<le> bw" "0 \<le> bh" "bw \<noteq> 0" "0 < width" "0 < height"
  shows "\<exists>a. make_ann (bx, by, bw, bh) width height q = Inr a"
proof -
  obtain gx gy where q: "q = (gx, gy)" by (cases q)
  from assms have "0 \<le> bw * real_of_int width * (bh * real_of_int height)"
    "bw * real_of_int width \<noteq> 0"
    by simp_all
  then show ?thesis
    unfolding q by (intro make_ann_succeeds analyze_gaze_succeeds)
qed

lemma explicit_anns_total:
  assumes "0 \<le> bw" "0 \<le> bh" "bw \<noteq> 0" "0 < width" "0 < height"
    and "\<forall>g \<in> set gs. g = PNone \<or> (\<exists>vs. g = PList vs)"
  shows "\<exists>as. explicit_anns sf (bx, by, bw, bh) is_gf width height gs = Inr as"
  using assms(6)
proof (induction gs)
  case Nil
  then show ?case by simp
next
  case (Cons g gs)
  from Cons.prems assms(4,5) obtain gp where
    "normalize_point sf g is_gf width height = Inr gp"
    using normalize_point_total [of g width height sf is_gf] by auto
  moreover obtain a where "make_ann (bx, by, bw, bh) width height gp = Inr a"
    using make_ann_total [OF assms(1-5)] by blast
  moreover from Cons obtain as where
    "explicit_anns sf (bx, by, bw, bh) is_gf width height gs = Inr as"
    by auto
  ultimately show ?case by simp
qed

lemma build_annotations_total:
  assumes r: "R item = Inr (full_path, width, height)" and pos: "0 < width" "0 < height"
    and bb: "normalize_bbox sf (item_get item ''bbox'') (is_gf_of item) width height
               = Inr (bx, by, bw, bh)"
    and w: "bw \<noteq> 0"
    and eye: "item_get item ''eye'' = PNone \<or> (\<exists>vs. item_get item ''eye'' = PList vs)"
    and gz: "item_get item ''gaze'' = PNone \<or> (\<exists>vs. item_get item ''gaze'' = PList vs)"
    and gs: "\<forall>g \<in> set (case item_get item ''gazes'' of PList gazes \<Rightarrow> gazes | _ \<Rightarrow> []).
               g = PNone \<or> (\<exists>vs. g = PList vs)"
  shows "\<exists>anns. build_annotations R sf item = Inr anns"
proof -
  let ?b = "(bx, by, bw, bh)"
  let ?gf = "is_gf_of item"
  from normalize_bbox_range [OF bb] have nn: "0 \<le> bw" "0 \<le> bh" by simp_all
  note mk = make_ann_total [OF nn w pos]
  from pos have nz: "width \<noteq> 0" "height \<noteq> 0" by simp_all
  obtain e where e: "normalize_point sf (item_get item ''eye'') ?gf width height = Inr e"
    using normalize_point_total [OF eye nz] by blast
  have "(if truthy (item_get item ''gaze'') then item_get item ''gaze'' else point_val e) = PNone
        \<or> (\<exists>vs. (if truthy (item_get item ''gaze'') then item_get item ''gaze'' else point_val e)
              = PList vs)"
    using gz by (auto simp add: point_val_def)
  then obtain g where g: "normalize_point sf
       (if truthy (item_get item ''gaze'') then item_get item ''gaze'' else point_val e)
       ?gf width height = Inr g"
    using normalize_point_total [OF _ nz] by blast
  obtain primary where p: "make_ann ?b width height g = Inr primary" using mk by blast
  obtain a2 where a2: "make_ann ?b width height e = Inr a2" using mk by blast
  have "\<exists>secondary. (if gaze_eye_dist g e > 5 / 100
      then (case make_ann ?b width height e of Inl e \<Rightarrow> Inl e | Inr a \<Rightarrow> Inr [a])
      else Inr []) = Inr secondary"
    by (auto simp add: a2)
  then obtain secondary where s: "(if gaze_eye_dist g e > 5 / 100
      then (case make_ann ?b width height e of Inl e \<Rightarrow> Inl e | Inr a \<Rightarrow> Inr [a])
      else Inr []) = Inr secondary" ..
  have "\<exists>extra. (case item_get item ''gazes'' of
        PList gazes \<Rightarrow> explicit_anns sf ?b ?gf width height gazes
      | _ \<Rightarrow> Inr []) = Inr extra"
    using gs explicit_anns_total [OF nn w pos, of _ sf bx "by" ?gf]
    by (cases "item_get item ''gazes''") simp_all
  then obtain extra where x: "(case item_get item ''gazes'' of
        PList gazes \<Rightarrow> explicit_anns sf ?b ?gf width height gazes
      | _ \<Rightarrow> Inr []) = Inr extra" ..
  have "build_annotations R sf item = Inr (number_anns (primary # secondary @ extra))"
    using r bb e g p s x by (rule build_annotations_eq)
  then show ?thesis ..
qed

end
